theory Spec2Isabelle
  imports Complex_Main
begin

section \<open>JavaScript numbers\<close>

text \<open>
  A Number of the source is an IEEE 754 binary64 value: a finite value, one of the two
  infinities, or NaN. A finite value is kept as the real it stands for; the arithmetic
  below only produces representable ones. The two zeros are one value: the source
  never divides and never tells them apart, and both print as \<open>0\<close>.
\<close>

datatype number = Finite real | PosInfinity | NegInfinity | NaN

text \<open>
  The exponent \<open>e\<close> of the binade of a positive real \<open>a\<close>: \<open>2^e \<le> a < 2^(e+1)\<close>, found by
  stepping from \<open>0\<close> up, or from \<open>-1\<close> down. It stops at \<open>1024\<close>, beyond the largest
  finite binade, and at \<open>-1022\<close>, the exponent shared by the smallest normal binade and
  the subnormal numbers.
\<close>

fun binade_up :: "nat \<Rightarrow> int \<Rightarrow> real \<Rightarrow> int" where
  "binade_up 0 e a = e"
| "binade_up (Suc n) e a = (if a < 2 powi (e + 1) then e else binade_up n (e + 1) a)"

fun binade_down :: "nat \<Rightarrow> int \<Rightarrow> real \<Rightarrow> int" where
  "binade_down 0 e a = e"
| "binade_down (Suc n) e a = (if 2 powi e \<le> a then e else binade_down n (e - 1) a)"

definition binade :: "real \<Rightarrow> int" where
  "binade a = (if 1 \<le> a then binade_up 1024 0 a else binade_down 1021 (- 1) a)"

text \<open>The nearest integer, the even one of two equally near.\<close>

definition round_even :: "real \<Rightarrow> int" where
  "round_even q =
     (if frac q < 1 / 2 then \<lfloor>q\<rfloor>
      else if 1 / 2 < frac q then \<lfloor>q\<rfloor> + 1
      else if even \<lfloor>q\<rfloor> then \<lfloor>q\<rfloor> else \<lfloor>q\<rfloor> + 1)"

text \<open>
  The Number of a real: rounding to the nearest binary64 value, ties to the even
  significand. The spacing of the values in the binade of exponent \<open>e\<close> is \<open>2^(e-52)\<close>;
  a result of magnitude \<open>2^1024\<close> has overflowed to an infinity.
\<close>

definition fl :: "real \<Rightarrow> number" where
  "fl r =
     (if r = 0 then Finite 0
      else (let ulp = 2 powi (binade \<bar>r\<bar> - 52);
                v = of_int (round_even (r / ulp)) * ulp
            in if 2 ^ 1024 \<le> \<bar>v\<bar> then (if 0 < r then PosInfinity else NegInfinity)
               else Finite v))"

text \<open>The operators \<open>+\<close> and \<open>-\<close> on Numbers.\<close>

fun js_add :: "number \<Rightarrow> number \<Rightarrow> number" where
  "js_add NaN b = NaN"
| "js_add a NaN = NaN"
| "js_add PosInfinity NegInfinity = NaN"
| "js_add NegInfinity PosInfinity = NaN"
| "js_add PosInfinity b = PosInfinity"
| "js_add a PosInfinity = PosInfinity"
| "js_add NegInfinity b = NegInfinity"
| "js_add a NegInfinity = NegInfinity"
| "js_add (Finite a) (Finite b) = fl (a + b)"

fun js_neg :: "number \<Rightarrow> number" where
  "js_neg (Finite a) = Finite (- a)"
| "js_neg PosInfinity = NegInfinity"
| "js_neg NegInfinity = PosInfinity"
| "js_neg NaN = NaN"

definition js_sub :: "number \<Rightarrow> number \<Rightarrow> number" where
  "js_sub a b = js_add a (js_neg b)"

text \<open>
  The results of \<open>Math.round\<close>: an integer, or the argument itself when it is not
  finite. For a finite argument it is the integer closest to it, the one closer to plus
  infinity when two are equally close.
\<close>

datatype rounded = Integer int | RoundedNaN | RoundedPosInfinity | RoundedNegInfinity

fun Math_round :: "number \<Rightarrow> rounded" where
  "Math_round (Finite r) = Integer (if frac r < 1 / 2 then \<lfloor>r\<rfloor> else \<lceil>r\<rceil>)"
| "Math_round PosInfinity = RoundedPosInfinity"
| "Math_round NegInfinity = RoundedNegInfinity"
| "Math_round NaN = RoundedNaN"

section \<open>JavaScript values\<close>

text \<open>
  The values that reach \<open>drawMaps.js\<close> from its caller: the \<open>options\<close> argument and what
  is stored under its keys. An object is made of data properties only: the list of its
  own enumerable properties with string keys, in enumeration order, and its prototype,
  which is \<open>null\<close>,
  \<open>Object.prototype\<close> (as for an object literal or the result of \<open>JSON.parse\<close>) or
  another object. An array is the list of its elements. Functions, accessor properties
  and proxies are not values of the model.
\<close>

datatype jsval =
    JUndefined
  | JNull
  | JBool bool
  | JNum number
  | JStr string
  | JObjectPrototype
  | JObj "(string \<times> jsval) list" jsval
  | JArr "jsval list"

text \<open>The \<open>typeof\<close> operator.\<close>

fun typeof :: "jsval \<Rightarrow> string" where
  "typeof JUndefined = ''undefined''"
| "typeof JNull = ''object''"
| "typeof (JBool b) = ''boolean''"
| "typeof (JNum n) = ''number''"
| "typeof (JStr s) = ''string''"
| "typeof JObjectPrototype = ''object''"
| "typeof (JObj ps proto) = ''object''"
| "typeof (JArr xs) = ''object''"

text \<open>Conversion to a boolean, as \<open>if (v)\<close>, \<open>!v\<close> and \<open>v || w\<close> do it.\<close>

fun truthy :: "jsval \<Rightarrow> bool" where
  "truthy JUndefined = False"
| "truthy JNull = False"
| "truthy (JBool b) = b"
| "truthy (JNum n) = (n \<noteq> Finite 0 \<and> n \<noteq> NaN)"
| "truthy (JStr s) = (s \<noteq> [])"
| "truthy JObjectPrototype = True"
| "truthy (JObj ps proto) = True"
| "truthy (JArr xs) = True"

text \<open>
  Decimal digits of a natural number, and the string of an integer (as
  \<open>Array.prototype.join\<close> and the property keys of array indices need it). JavaScript
  prints an integer of magnitude up to \<open>2^53\<close> this way.
\<close>

fun decimal :: "nat \<Rightarrow> string" where
  "decimal n =
     (if n < 10 then [''0123456789'' ! n]
      else decimal (n div 10) @ [''0123456789'' ! (n mod 10)])"

declare decimal.simps [simp del]

definition num_str :: "int \<Rightarrow> string" where
  "num_str i = (if i < 0 then CHR ''-'' # decimal (nat (- i)) else decimal (nat i))"

fun rounded_str :: "rounded \<Rightarrow> string" where
  "rounded_str (Integer i) = num_str i"
| "rounded_str RoundedNaN = ''NaN''"
| "rounded_str RoundedPosInfinity = ''Infinity''"
| "rounded_str RoundedNegInfinity = ''-Infinity''"

text \<open>\<open>Array.prototype.join\<close> on an array whose elements are already strings.\<close>

fun join :: "string \<Rightarrow> string list \<Rightarrow> string" where
  "join sep [] = []"
| "join sep [s] = s"
| "join sep (s # t # ss) = s @ sep @ join sep (t # ss)"

text \<open>
  The pairs \<open>(key, obj[key])\<close> of the own enumerable properties of a value: the
  properties of an object, the indices of an array, the character positions of a
  string. Other values have none.
\<close>

fun own_props :: "jsval \<Rightarrow> (string \<times> jsval) list" where
  "own_props (JObj ps proto) = ps"
| "own_props (JArr xs) = zip (map decimal [0..<length xs]) xs"
| "own_props (JStr s) = zip (map decimal [0..<length s]) (map (\<lambda>c. JStr [c]) s)"
| "own_props v = []"

text \<open>
  The keys a \<open>for (key in obj)\<close> loop visits: the own enumerable keys first, then those
  of the prototype chain. (A key that is hidden by an earlier one is listed again here;
  only whether there is any key matters below.)
\<close>

fun for_in_keys :: "jsval \<Rightarrow> string list" where
  "for_in_keys (JObj ps proto) = map fst ps @ for_in_keys proto"
| "for_in_keys v = map fst (own_props v)"

text \<open>
  Whether the call \<open>obj.hasOwnProperty(key)\<close> finds the method of \<open>Object.prototype\<close>.
  The lookup walks the prototype chain: a data property of that name on the way hides
  the method, and its value is not a function; a chain that ends in \<open>null\<close> before
  \<open>Object.prototype\<close> has no such property at all. Either way the call is a TypeError.
  Arrays and primitives reach \<open>Object.prototype\<close> through their own prototypes.
\<close>

fun hasOwnProperty_callable :: "jsval \<Rightarrow> bool" where
  "hasOwnProperty_callable JUndefined = False"
| "hasOwnProperty_callable JNull = False"
| "hasOwnProperty_callable (JObj ps proto) =
     (map_of ps ''hasOwnProperty'' = None \<and> hasOwnProperty_callable proto)"
| "hasOwnProperty_callable v = True"

datatype error = ReferenceError | TypeError | HierarchyRequestError

type_synonym props = "string \<Rightarrow> jsval option"

section \<open>The document\<close>

text \<open>
  The part of the browser's document that the widget reads and writes, as a store indexed
  by node. The tree is kept as parent pointers (\<open>None\<close> is JavaScript's \<open>null\<close>, a
  detached node); the order of siblings, which nothing here reads, is not kept. A node
  is the Document or an element: the parent of the root element is the Document. A style
  property holds the value assigned to it. A listener is the node it is registered on,
  the event type and the bound method, named by the element of the widget bound as
  \<open>this\<close>. Messages written with \<open>console.log\<close> are not part of the store.
\<close>

type_synonym node = nat

datatype handler = OnClick node | OnMove node

datatype node_kind = DocumentNode | ElementNode

record dom =
  parentNode :: "node \<Rightarrow> node option"
  nodeType :: "node \<Rightarrow> node_kind"
  tagName :: "node \<Rightarrow> string"
  attributes :: "node \<Rightarrow> string \<Rightarrow> string option"
  style :: "node \<Rightarrow> string \<Rightarrow> jsval option"
  listeners :: "(node \<times> string \<times> handler) list"
  nextNode :: node

text \<open>
  The geometry the browser's layout reports: per element the client size and the top
  left corner of \<open>getBoundingClientRect()\<close>, the scroll position of the window and the
  border offsets of \<open>document.documentElement\<close>.
\<close>

record layout =
  clientWidth :: "node \<Rightarrow> int"
  clientHeight :: "node \<Rightarrow> int"
  rectTop :: "node \<Rightarrow> number"
  rectLeft :: "node \<Rightarrow> number"
  pageXOffset :: number
  pageYOffset :: number
  clientTop :: number
  clientLeft :: number

text \<open>\<open>document.createElement\<close> and \<open>createElementNS\<close>: a new detached element.\<close>

definition createElement :: "string \<Rightarrow> dom \<Rightarrow> node \<times> dom" where
  "createElement t d =
     (nextNode d,
      d\<lparr>parentNode := (parentNode d)(nextNode d := None),
        nodeType := (nodeType d)(nextNode d := ElementNode),
        tagName := (tagName d)(nextNode d := t),
        attributes := (attributes d)(nextNode d := Map.empty),
        style := (style d)(nextNode d := Map.empty),
        nextNode := Suc (nextNode d)\<rparr>)"

definition setStyle :: "node \<Rightarrow> string \<Rightarrow> jsval \<Rightarrow> dom \<Rightarrow> dom" where
  "setStyle n k v d = d\<lparr>style := (style d)(n := (style d n)(k \<mapsto> v))\<rparr>"

definition setAttribute :: "node \<Rightarrow> string \<Rightarrow> string \<Rightarrow> dom \<Rightarrow> dom" where
  "setAttribute n k v d = d\<lparr>attributes := (attributes d)(n := (attributes d n)(k \<mapsto> v))\<rparr>"

text \<open>
  \<open>p.appendChild(c)\<close> and \<open>p.insertBefore(c, ref)\<close> on an element \<open>p\<close> both make \<open>p\<close>
  the parent of \<open>c\<close>; \<open>p.removeChild(c)\<close> detaches \<open>c\<close>. The Document refuses a second
  element child with a HierarchyRequestError: the callers below check for it where the
  parent is read from the page.
\<close>

definition appendChild :: "node \<Rightarrow> node \<Rightarrow> dom \<Rightarrow> dom" where
  "appendChild p c d = d\<lparr>parentNode := (parentNode d)(c \<mapsto> p)\<rparr>"

definition insertBefore :: "node \<Rightarrow> node \<Rightarrow> node \<Rightarrow> dom \<Rightarrow> dom" where
  "insertBefore p c ref d = d\<lparr>parentNode := (parentNode d)(c \<mapsto> p)\<rparr>"

definition removeChild :: "node \<Rightarrow> node \<Rightarrow> dom \<Rightarrow> dom" where
  "removeChild p c d = d\<lparr>parentNode := (parentNode d)(c := None)\<rparr>"

text \<open>\<open>n.innerHTML = ''\<close>: every child of \<open>n\<close> is detached.\<close>

definition clearInnerHTML :: "node \<Rightarrow> dom \<Rightarrow> dom" where
  "clearInnerHTML n d =
     d\<lparr>parentNode := (\<lambda>c. if parentNode d c = Some n then None else parentNode d c)\<rparr>"

definition addEventListener :: "node \<Rightarrow> string \<Rightarrow> handler \<Rightarrow> dom \<Rightarrow> dom" where
  "addEventListener n t h d = d\<lparr>listeners := listeners d @ [(n, t, h)]\<rparr>"

section \<open>The widget\<close>

text \<open>
  The fields of a \<open>drawMaps\<close> object. \<open>coords\<close> is an array of two-element arrays
  \<open>[x, y]\<close> of results of \<open>Math.round\<close>. \<open>svg\<close> is \<open>null\<close> only between line 32 and line 137 of
  the constructor, where nothing reads it; the record holds the node that \<open>injectSvg\<close>
  stores.
\<close>

record widget =
  options :: props
  element :: node
  svg :: node
  polygon :: "node option"
  isDrawing :: bool
  coords :: "(rounded \<times> rounded) list"

text \<open>
  A mouse event: the pointer's page position, and \<open>property ev k\<close> for the value of the property
  access \<open>event[k]\<close> with the key value \<open>k\<close> (for a click, \<open>event['metaKey']\<close>,
  \<open>event['shiftKey']\<close> and \<open>event['altKey']\<close> are the booleans of the held keys).
  \<open>event.preventDefault()\<close> changes nothing the widget sees.
\<close>

record event =
  pageX :: number
  pageY :: number
  property :: "jsval \<Rightarrow> jsval"

record offset =
  offsetTop :: number
  offsetLeft :: number

record position =
  posX :: rounded
  posY :: rounded

text \<open>\<open>getElementOffset\<close> (lines 81 to 89) and \<open>getMousePosition\<close> (lines 94 to 101).\<close>

definition getElementOffset :: "layout \<Rightarrow> node \<Rightarrow> offset" where
  "getElementOffset lay el =
     \<lparr>offsetTop = js_sub (js_add (rectTop lay el) (pageYOffset lay)) (clientTop lay),
      offsetLeft = js_sub (js_add (rectLeft lay el) (pageXOffset lay)) (clientLeft lay)\<rparr>"

definition getMousePosition :: "layout \<Rightarrow> widget \<Rightarrow> event \<Rightarrow> position" where
  "getMousePosition lay w ev =
     (let offset = getElementOffset lay (element w)
      in \<lparr>posX = Math_round (js_sub (pageX ev) (offsetLeft offset)),
          posY = Math_round (js_sub (pageY ev) (offsetTop offset))\<rparr>)"

subsection \<open>Option merging: \<open>extend\<close> (lines 56 to 75)\<close>

text \<open>
  The assignment \<open>out[key] = v\<close> on the plain object \<open>out\<close>, for a \<open>v\<close> that is not
  an object: the key \<open>__proto__\<close> is the accessor of \<open>Object.prototype\<close>, whose setter
  ignores such a value; every other key becomes (or updates) an own property.
\<close>

definition assign :: "props \<Rightarrow> string \<Rightarrow> jsval \<Rightarrow> props" where
  "assign out key v = (if key = ''__proto__'' then out else out(key \<mapsto> v))"

text \<open>
  The body of the inner loop (lines 66 to 69) over the own properties of one argument,
  those for which the guard on line 65 holds. The identifier \<open>deepExtend\<close> is declared
  nowhere in the file (and the page is taken to define no global of that name):
  evaluating the call on line 67 throws a ReferenceError.
\<close>

fun extend_keys :: "props \<Rightarrow> (string \<times> jsval) list \<Rightarrow> error + props" where
  "extend_keys out [] = Inr out"
| "extend_keys out ((key, v) # rest) =
     (if typeof v = ''object'' then Inl ReferenceError
      else extend_keys (assign out key v) rest)"

text \<open>
  The inner loop (lines 64 to 71) for one argument \<open>obj\<close>. The guard
  \<open>obj.hasOwnProperty(key)\<close> is evaluated for the first key the loop visits, own or
  inherited: when the method cannot be called, that is a TypeError before anything is
  assigned. Otherwise the guard holds for the own keys, which come first, and fails
  for the inherited ones.
\<close>

definition extend_from :: "props \<Rightarrow> jsval \<Rightarrow> error + props" where
  "extend_from out obj =
     (if for_in_keys obj = [] then Inr out
      else if \<not> hasOwnProperty_callable obj then Inl TypeError
      else extend_keys out (own_props obj))"

text \<open>
  The outer loop (lines 59 to 72) over \<open>arguments[1..]\<close>. The first argument is always
  the object \<open>{}\<close> at the only call site, so \<open>out || {}\<close> is \<open>out\<close>.
\<close>

fun extend :: "props \<Rightarrow> jsval list \<Rightarrow> error + props" where
  "extend out [] = Inr out"
| "extend out (obj # objs) =
     (if \<not> truthy obj then extend out objs
      else (case extend_from out obj of
              Inl e \<Rightarrow> Inl e
            | Inr out' \<Rightarrow> extend out' objs))"

definition defaults :: jsval where
  "defaults = JObj
     [(''wrapImages'', JBool True),
      (''regretKey'', JStr ''metaKey''),
      (''closeKey'', JStr ''shiftKey''),
      (''resetKey'', JStr ''altKey''),
      (''fillColor'', JStr ''rgba(255, 0, 0, 0.3)''),
      (''strokeColor'', JStr ''rgba(255, 0, 0, 0.5)''),
      (''strokeWidth'', JNum (Finite 1))]
     JObjectPrototype"

text \<open>Reading \<open>this.options.k\<close>: \<open>undefined\<close> when the property is absent.\<close>

definition opt :: "props \<Rightarrow> string \<Rightarrow> jsval" where
  "opt ps k = (case ps k of None \<Rightarrow> JUndefined | Some v \<Rightarrow> v)"

subsection \<open>Methods\<close>

text \<open>
  \<open>injectWrapper\<close> (lines 106 to 116). \<open>el.parentNode.insertBefore\<close> reads a property
  of \<open>el.parentNode\<close>: a TypeError when the element is detached. When the parent is the
  Document (the element is the root), the Document already holds its one element child
  and \<open>insertBefore\<close> throws a HierarchyRequestError. A throwing method returns the error
  with the document as it is at the throw.
\<close>

definition injectWrapper :: "node \<Rightarrow> dom \<Rightarrow> (error \<times> dom) + dom" where
  "injectWrapper el d =
     (let (wrapper, d1) = createElement ''div'' d;
          d2 = setStyle wrapper ''display'' (JStr ''inline-block'') d1;
          d3 = setStyle wrapper ''position'' (JStr ''relative'') d2
      in case parentNode d3 el of
           None \<Rightarrow> Inl (TypeError, d3)
         | Some p \<Rightarrow>
             if nodeType d3 p = DocumentNode then Inl (HierarchyRequestError, d3)
             else (let d4 = insertBefore p wrapper el d3
                   in case parentNode d4 el of
                        None \<Rightarrow> Inl (TypeError, d4)
                      | Some p' \<Rightarrow> Inr (appendChild wrapper el (removeChild p' el d4))))"

text \<open>
  \<open>injectSvg\<close> (lines 121 to 138); the result carries the node stored in \<open>this.svg\<close>.
  \<open>el.parentNode.appendChild\<close> fails as \<open>insertBefore\<close> does above: the parent is the
  Document only when the root element was not wrapped.
\<close>

definition injectSvg :: "layout \<Rightarrow> node \<Rightarrow> dom \<Rightarrow> (error \<times> dom) + (node \<times> dom)" where
  "injectSvg lay el d =
     (let (s, d1) = createElement ''svg'' d;
          d2 = setAttribute s ''viewBox''
                 (join '' '' [num_str 0, num_str 0,
                              num_str (clientWidth lay el), num_str (clientHeight lay el)]) d1;
          d3 = setStyle s ''webkitUserSelect'' (JStr ''none'') d2;
          d4 = setStyle s ''position'' (JStr ''absolute'') d3;
          d5 = setStyle s ''left'' (JNum (Finite 0)) d4;
          d6 = setStyle s ''top'' (JNum (Finite 0)) d5
      in case parentNode d6 el of
           None \<Rightarrow> Inl (TypeError, d6)
         | Some p \<Rightarrow>
             if nodeType d6 p = DocumentNode then Inl (HierarchyRequestError, d6)
             else Inr (s, appendChild p s d6))"

text \<open>\<open>injectPolygon\<close> (lines 144 to 154).\<close>

definition injectPolygon :: "widget \<times> dom \<Rightarrow> widget \<times> dom" where
  "injectPolygon = (\<lambda>(w, d).
     (let (p, d1) = createElement ''polygon'' d;
          d2 = setStyle p ''fill'' (opt (options w) ''fillColor'') d1;
          d3 = setStyle p ''stroke'' (opt (options w) ''strokeColor'') d2;
          d4 = setStyle p ''strokeWidth'' (opt (options w) ''strokeWidth'') d3;
          d5 = appendChild (svg w) p d4
      in (w\<lparr>polygon := Some p\<rparr>, d5)))"

text \<open>
  \<open>renderNewPoint\<close> (lines 160 to 165). \<open>[this.coords, x, y].join(',')\<close> turns
  \<open>this.coords\<close> into a string first, which joins its pairs, themselves joined, with
  commas. \<open>this.polygon.setAttribute\<close> is a TypeError when \<open>this.polygon\<close> is \<open>null\<close>.
\<close>

definition coords_str :: "(rounded \<times> rounded) list \<Rightarrow> string" where
  "coords_str cs = join '','' (map (\<lambda>(a, b). join '','' [rounded_str a, rounded_str b]) cs)"

definition renderNewPoint ::
  "rounded \<Rightarrow> rounded \<Rightarrow> widget \<times> dom \<Rightarrow> (error \<times> widget \<times> dom) + (widget \<times> dom)" where
  "renderNewPoint px py = (\<lambda>(w, d).
     (case polygon w of
        None \<Rightarrow> Inl (TypeError, w, d)
      | Some p \<Rightarrow>
          Inr (w, setAttribute p ''points''
                    (join '','' [coords_str (coords w), rounded_str px, rounded_str py]) d)))"

text \<open>\<open>regretPoint\<close> (lines 170 to 173): \<open>pop\<close> removes the last element.\<close>

definition regretPoint :: "widget \<Rightarrow> widget" where
  "regretPoint w = (if length (coords w) > 0 then w\<lparr>coords := butlast (coords w)\<rparr> else w)"

text \<open>\<open>closeMap\<close> (lines 178 to 182).\<close>

definition closeMap :: "widget \<Rightarrow> widget" where
  "closeMap w = w\<lparr>isDrawing := False, polygon := None, coords := []\<rparr>"

text \<open>\<open>resetMaps\<close> (lines 187 to 192).\<close>

definition resetMaps :: "widget \<times> dom \<Rightarrow> widget \<times> dom" where
  "resetMaps = (\<lambda>(w, d).
     (w\<lparr>isDrawing := False, polygon := None, coords := []\<rparr>, clearInnerHTML (svg w) d))"

text \<open>
  \<open>onClick\<close> (lines 197 to 220). \<open>event[this.options.regretKey]\<close> is the property of
  the event under the configured key, used as a condition.
\<close>

definition onClick :: "layout \<Rightarrow> event \<Rightarrow> widget \<times> dom \<Rightarrow> widget \<times> dom" where
  "onClick lay ev = (\<lambda>(w0, d0).
     (let (w, d) = (if polygon w0 = None then injectPolygon (w0, d0) else (w0, d0))
      in if truthy (property ev (opt (options w) ''regretKey'')) then (regretPoint w, d)
         else if truthy (property ev (opt (options w) ''closeKey'')) then (closeMap w, d)
         else if truthy (property ev (opt (options w) ''resetKey'')) then resetMaps (w, d)
         else (let position = getMousePosition lay w ev
               in (w\<lparr>coords := coords w @ [(posX position, posY position)],
                     isDrawing := True\<rparr>, d))))"

text \<open>\<open>onMove\<close> (lines 225 to 235).\<close>

definition onMove ::
  "layout \<Rightarrow> event \<Rightarrow> widget \<times> dom \<Rightarrow> (error \<times> widget \<times> dom) + (widget \<times> dom)" where
  "onMove lay ev = (\<lambda>(w, d).
     (if \<not> isDrawing w \<or> length (coords w) = 0 then Inr (w, d)
      else (let position = getMousePosition lay w ev
            in renderNewPoint (posX position) (posY position) (w, d))))"

text \<open>
  \<open>initialize\<close> (lines 240 to 258), on the options and the element of \<open>this\<close>; the
  result carries the node stored in \<open>this.svg\<close>.
\<close>

definition initialize :: "layout \<Rightarrow> props \<Rightarrow> node \<Rightarrow> dom \<Rightarrow> (error \<times> dom) + (node \<times> dom)" where
  "initialize lay opts el d =
     (case (if truthy (opt opts ''wrapImages'') then injectWrapper el d else Inr d) of
        Inl err \<Rightarrow> Inl err
      | Inr d1 \<Rightarrow>
          (case injectSvg lay el d1 of
             Inl err \<Rightarrow> Inl err
           | Inr (s, d2) \<Rightarrow>
               (case parentNode d2 el of
                  None \<Rightarrow> Inl (TypeError, d2)
                | Some p \<Rightarrow>
                    (let d3 = addEventListener p ''click'' (OnClick el) d2
                     in case parentNode d3 el of
                          None \<Rightarrow> Inl (TypeError, d3)
                        | Some p' \<Rightarrow>
                            Inr (s, addEventListener p' ''mousemove'' (OnMove el) d3)))))"

text \<open>The constructor \<open>drawMaps\<close> (lines 26 to 38).\<close>

definition drawMaps :: "layout \<Rightarrow> node \<Rightarrow> jsval \<Rightarrow> dom \<Rightarrow> (error \<times> dom) + (widget \<times> dom)" where
  "drawMaps lay el opts d =
     (case extend Map.empty [defaults, opts] of
        Inl e \<Rightarrow> Inl (e, d)
      | Inr merged \<Rightarrow>
          (case initialize lay merged el d of
             Inl err \<Rightarrow> Inl err
           | Inr (s, d') \<Rightarrow>
               Inr (\<lparr>options = merged, element = el, svg = s, polygon = None,
                     isDrawing = False, coords = []\<rparr>, d')))"

text \<open>
  The exported function (lines 263 to 269), on the list \<open>elements\<close> that
  \<open>document.querySelectorAll(selector)\<close> returns. \<open>construct_from i\<close> is the loop from
  index \<open>i - 1\<close> down to \<open>0\<close>; the widgets built so far are kept in the order of their
  construction. An exception of a constructor leaves the loop: the source has no
  \<open>try\<close>. The geometry is taken as the same for every constructor of one call.
\<close>

fun construct_from ::
  "layout \<Rightarrow> jsval \<Rightarrow> node list \<Rightarrow> nat \<Rightarrow> widget list \<times> dom \<Rightarrow>
   (error \<times> widget list \<times> dom) + (widget list \<times> dom)" where
  "construct_from lay opts elements 0 (ws, d) = Inr (ws, d)"
| "construct_from lay opts elements (Suc i) (ws, d) =
     (case drawMaps lay (elements ! i) opts d of
        Inl (e, d') \<Rightarrow> Inl (e, ws, d')
      | Inr (w, d') \<Rightarrow> construct_from lay opts elements i (ws @ [w], d'))"

definition create ::
  "layout \<Rightarrow> node list \<Rightarrow> jsval \<Rightarrow> dom \<Rightarrow> (error \<times> widget list \<times> dom) + (widget list \<times> dom)" where
  "create lay elements opts d = construct_from lay opts elements (length elements) ([], d)"

section \<open>Vocabulary of the properties\<close>

text \<open>
  The first step of \<open>onClick\<close> (lines 200 to 202): a polygon element is created when
  none is attached.
\<close>

definition ensurePolygon :: "widget \<times> dom \<Rightarrow> widget \<times> dom" where
  "ensurePolygon = (\<lambda>(w, d). if polygon w = None then injectPolygon (w, d) else (w, d))"

text \<open>The condition \<open>event[this.options.k]\<close> of \<open>onClick\<close> for the option named \<open>k\<close>.\<close>

definition held :: "widget \<Rightarrow> event \<Rightarrow> string \<Rightarrow> bool" where
  "held w ev k = truthy (property ev (opt (options w) k))"

text \<open>The widget and the document a handler leaves behind, whether it returned or threw.\<close>

definition state_after :: "(error \<times> widget \<times> dom) + (widget \<times> dom) \<Rightarrow> widget \<times> dom" where
  "state_after r = (case r of Inl (e, s) \<Rightarrow> s | Inr s \<Rightarrow> s)"

text \<open>
  The geometry the browser reports after the page has scrolled by \<open>(dx, dy)\<close>: the
  scroll offsets of the window grow by the delta and every bounding rectangle, which is
  relative to the viewport, moves back by it. Each reported value is a Number: the one
  nearest to the shifted position.
\<close>

definition scrolled :: "number \<Rightarrow> number \<Rightarrow> layout \<Rightarrow> layout" where
  "scrolled dx dy lay =
     lay\<lparr>pageXOffset := js_add (pageXOffset lay) dx,
         pageYOffset := js_add (pageYOffset lay) dy,
         rectLeft := (\<lambda>n. js_sub (rectLeft lay n) dx),
         rectTop := (\<lambda>n. js_sub (rectTop lay n) dy)\<rparr>"




subsection \<open>A concrete page\<close>

text \<open>The options object that merging the defaults alone produces.\<close>

definition merged_defaults :: props where
  "merged_defaults =
     [''wrapImages'' \<mapsto> JBool True,
      ''regretKey'' \<mapsto> JStr ''metaKey'',
      ''closeKey'' \<mapsto> JStr ''shiftKey'',
      ''resetKey'' \<mapsto> JStr ''altKey'',
      ''fillColor'' \<mapsto> JStr ''rgba(255, 0, 0, 0.3)'',
      ''strokeColor'' \<mapsto> JStr ''rgba(255, 0, 0, 0.5)'',
      ''strokeWidth'' \<mapsto> JNum (Finite 1)]"

text \<open>
  A page whose body (node 0) holds one image (node 1) of 300 by 200 pixels, laid out at
  \<open>(10, 10)\<close> of a page that is not scrolled.
\<close>

definition example_page :: dom where
  "example_page =
     \<lparr>parentNode = (\<lambda>n. None)(1 \<mapsto> 0),
      nodeType = (\<lambda>n. ElementNode),
      tagName = (\<lambda>n. [])(0 := ''body'', 1 := ''img''),
      attributes = (\<lambda>n. Map.empty),
      style = (\<lambda>n. Map.empty),
      listeners = [],
      nextNode = 2\<rparr>"

definition example_layout :: layout where
  "example_layout =
     \<lparr>clientWidth = (\<lambda>n. 0)(1 := 300),
      clientHeight = (\<lambda>n. 0)(1 := 200),
      rectTop = (\<lambda>n. Finite 0)(1 := Finite 10),
      rectLeft = (\<lambda>n. Finite 0)(1 := Finite 10),
      pageXOffset = Finite 0,
      pageYOffset = Finite 0,
      clientTop = Finite 0,
      clientLeft = Finite 0\<rparr>"

text \<open>
  The widget and the document after \<open>new drawMaps(image)\<close> on that page: the image is
  wrapped in a \<open>div\<close> (node 2) that also holds the \<open>svg\<close> (node 3).
\<close>

definition example_widget :: widget where
  "example_widget =
     \<lparr>options = merged_defaults, element = 1, svg = 3, polygon = None,
      isDrawing = False, coords = []\<rparr>"

definition example_document :: dom where
  "example_document =
     \<lparr>parentNode = (\<lambda>n. None)(1 \<mapsto> 2, 2 \<mapsto> 0, 3 \<mapsto> 2),
      nodeType = (\<lambda>n. ElementNode),
      tagName = (\<lambda>n. [])(0 := ''body'', 1 := ''img'', 2 := ''div'', 3 := ''svg''),
      attributes = (\<lambda>n. Map.empty)(3 := [''viewBox'' \<mapsto> ''0 0 300 200'']),
      style = (\<lambda>n. Map.empty)
        (2 := [''display'' \<mapsto> JStr ''inline-block'', ''position'' \<mapsto> JStr ''relative''],
         3 := [''webkitUserSelect'' \<mapsto> JStr ''none'', ''position'' \<mapsto> JStr ''absolute'',
               ''left'' \<mapsto> JNum (Finite 0), ''top'' \<mapsto> JNum (Finite 0)]),
      listeners = [(2, ''click'', OnClick 1), (2, ''mousemove'', OnMove 1)],
      nextNode = 4\<rparr>"

text \<open>
  A mouse event at a page position with the named modifier keys held: the property of
  that name is \<open>true\<close>, every other property named by a string is \<open>false\<close>.
\<close>

definition click :: "real \<Rightarrow> real \<Rightarrow> string list \<Rightarrow> event" where
  "click px py keys =
     \<lparr>pageX = Finite px, pageY = Finite py,
      property = (\<lambda>k. case k of JStr s \<Rightarrow> JBool (s \<in> set keys) | _ \<Rightarrow> JUndefined)\<rparr>"

text \<open>
  The scenario: a plain click at \<open>(110, 60)\<close>, a click at \<open>(130, 80)\<close> with the meta key
  held, a plain click at \<open>(130, 80)\<close>.
\<close>

definition scenario1 :: "widget \<times> dom" where
  "scenario1 = onClick example_layout (click 110 60 []) (example_widget, example_document)"

definition scenario2 :: "widget \<times> dom" where
  "scenario2 = onClick example_layout (click 130 80 [''metaKey'']) scenario1"

definition scenario3 :: "widget \<times> dom" where
  "scenario3 = onClick example_layout (click 130 80 []) scenario2"

subsection \<open>A fractional geometry\<close>

text \<open>
  The image of the example page laid out at the horizontal position \<open>0.4\<close> of a page
  scrolled by \<open>0.1\<close>: the two Numbers are the binary64 values nearest to these decimals,
  \<open>3602879701896397 / 2^53\<close> and \<open>3602879701896397 / 2^55\<close>.
\<close>

definition fractional_layout :: layout where
  "fractional_layout =
     \<lparr>clientWidth = (\<lambda>n. 0)(1 := 300),
      clientHeight = (\<lambda>n. 0)(1 := 200),
      rectTop = (\<lambda>n. Finite 0),
      rectLeft = (\<lambda>n. Finite 0)(1 := Finite (3602879701896397 / 2 ^ 53)),
      pageXOffset = Finite (3602879701896397 / 2 ^ 55),
      pageYOffset = Finite 0,
      clientTop = Finite 0,
      clientLeft = Finite 0\<rparr>"

subsection \<open>A page matched with its root element\<close>


section \<open>Properties\<close>

subsection \<open>Numbers\<close>

lemma binade_up_step:
  "0 < n \<Longrightarrow> binade_up n e a = (if a < 2 powi (e + 1) then e else binade_up (n - 1) (e + 1) a)"
  by (cases n) simp_all

lemma binade_down_step:
  "0 < n \<Longrightarrow> binade_down n e a = (if 2 powi e \<le> a then e else binade_down (n - 1) (e - 1) a)"
  by (cases n) simp_all

lemmas fl_eval = fl_def binade_def binade_up_step binade_down_step round_even_def Let_def frac_def

text \<open>
  The binade search is right below \<open>2^1024\<close>, and every integer of magnitude up to
  \<open>2^53\<close> is a Number: rounding leaves it as it is.
\<close>

lemma binade_up_bounds:
  "2 powi e \<le> a \<Longrightarrow> a < 2 powi (e + int n) \<Longrightarrow>
   2 powi (binade_up n e a) \<le> a \<and> a < 2 powi (binade_up n e a + 1) \<and>
   e \<le> binade_up n e a \<and> binade_up n e a < e + int n"
proof (induction n arbitrary: e)
  case 0
  then show ?case by simp
next
  case (Suc n)
  show ?case
  proof (cases "a < 2 powi (e + 1)")
    case True
    with Suc.prems show ?thesis by simp
  next
    case False
    then have lo: "2 powi (e + 1) \<le> a" by simp
    have hi: "a < 2 powi ((e + 1) + int n)"
      using Suc.prems(2) by (simp add: add.commute add.left_commute)
    from Suc.IH[OF lo hi] False show ?thesis by simp
  qed
qed

lemma round_even_of_int: "round_even (of_int k) = k"
  by (simp add: round_even_def)

lemma fl_of_int:
  assumes "\<bar>n\<bar> \<le> 2 ^ 53"
  shows "fl (of_int n) = Finite (of_int n)"
proof (cases "n = 0")
  case True
  then show ?thesis by (simp add: fl_def)
next
  case False
  let ?a = "\<bar>real_of_int n\<bar>"
  have one: "1 \<le> ?a" using False by (simp add: abs_if)
  have top: "?a < 2 powi (0 + int 1024)"
  proof -
    have "?a \<le> 2 ^ 53" using assms by (metis of_int_abs of_int_le_iff of_int_numeral of_int_power)
    also have "\<dots> < (2::real) ^ 1024" by simp
    finally show ?thesis by simp
  qed
  define e where "e = binade ?a"
  have e: "2 powi e \<le> ?a" "?a < 2 powi (e + 1)" "0 \<le> e"
    using binade_up_bounds[of 0 ?a 1024] one top by (simp_all add: e_def binade_def)
  have e_top: "e \<le> 53"
  proof (rule ccontr)
    assume "\<not> e \<le> 53"
    then have "54 \<le> e" by simp
    then have "(2::real) powi 54 \<le> 2 powi e" by (intro power_int_increasing) simp_all
    moreover have "?a \<le> 2 ^ 53" using assms by (metis of_int_abs of_int_le_iff of_int_numeral of_int_power)
    ultimately show False using e(1) by simp
  qed
  have "\<exists>k. real_of_int n / 2 powi (e - 52) = of_int k"
  proof (cases "e \<le> 52")
    case True
    then have "2 powi (e - 52) = 1 / (2::real) ^ nat (52 - e)"
      by (simp add: power_int_def field_simps)
    then have "real_of_int n / 2 powi (e - 52) = of_int (n * 2 ^ nat (52 - e))" by simp
    then show ?thesis by blast
  next
    case False
    with e_top have e53: "e = 53" by simp
    then have "2 ^ 53 \<le> ?a" using e(1) by simp
    moreover have "?a \<le> 2 ^ 53" using assms by (metis of_int_abs of_int_le_iff of_int_numeral of_int_power)
    ultimately have "?a = 2 ^ 53" by simp
    then have "\<bar>n\<bar> = 2 ^ 53" by (metis of_int_abs of_int_eq_iff of_int_numeral of_int_power)
    then have "n = 2 ^ 53 \<or> n = - (2 ^ 53)" by (simp add: abs_if split: if_splits)
    then have "real_of_int n / 2 powi (e - 52) = of_int (n div 2)"
      using e53 by auto
    then show ?thesis by blast
  qed
  then obtain k where k: "real_of_int n / 2 powi (e - 52) = of_int k" by blast
  have pos: "(2::real) powi (e - 52) \<noteq> 0" by simp
  have scaled: "real_of_int k * 2 powi (e - 52) = of_int n"
    using k pos by (simp add: field_simps)
  have small: "\<not> 2 ^ 1024 \<le> ?a"
    using top by simp
  show ?thesis
    using False k scaled small
    by (simp add: fl_def Let_def e_def[symmetric] round_even_of_int)
qed

lemma fl_small_integers:
  "fl 0 = Finite 0" "fl 3 = Finite 3" "fl 4 = Finite 4" "fl 6 = Finite 6" "fl 7 = Finite 7"
  "fl 10 = Finite 10" "fl 50 = Finite 50" "fl 60 = Finite 60" "fl 70 = Finite 70"
  "fl 80 = Finite 80" "fl 100 = Finite 100" "fl 110 = Finite 110" "fl 120 = Finite 120"
  "fl 130 = Finite 130"
  using fl_of_int[of 0] fl_of_int[of 3] fl_of_int[of 4] fl_of_int[of 6] fl_of_int[of 7]
    fl_of_int[of 10] fl_of_int[of 50] fl_of_int[of 60] fl_of_int[of 70] fl_of_int[of 80]
    fl_of_int[of 100] fl_of_int[of 110] fl_of_int[of 120] fl_of_int[of 130]
  by simp_all

text \<open>
  The Numbers nearest to the decimals \<open>0.4\<close>, \<open>0.1\<close>, \<open>-0.6\<close> and \<open>1.1\<close>; the sum
  \<open>0.4 + 0.1\<close> is the Number \<open>0.5\<close>, the sum \<open>-0.6 + 1.1\<close> is the next Number above it.
\<close>

lemma fl_decimals:
  "fl (4 / 10) = Finite (3602879701896397 / 2 ^ 53)"
  "fl (1 / 10) = Finite (3602879701896397 / 2 ^ 55)"
  "fl (- 6 / 10) = Finite (- 5404319552844595 / 2 ^ 53)"
  "fl (11 / 10) = Finite (4953959590107546 / 2 ^ 52)"
  "js_add (fl (4 / 10)) (fl (1 / 10)) = Finite (1 / 2)"
  "js_add (fl (- 6 / 10)) (fl (11 / 10)) = Finite (1 / 2 + 1 / 2 ^ 53)"
  by (simp_all add: fl_eval)

lemma Math_round_eq_round: "Math_round (Finite r) = Integer (round r)"
proof (cases "frac r < 1 / 2")
  case True
  have "\<lfloor>r + 1 / 2\<rfloor> = \<lfloor>r\<rfloor>"
    using True by (simp add: floor_add)
  with True show ?thesis by (simp add: round_def)
next
  case False
  then have "frac r \<noteq> 0" by linarith
  then have "r \<noteq> of_int \<lfloor>r\<rfloor>" by (simp add: frac_def)
  then have up: "\<lceil>r\<rceil> = \<lfloor>r\<rfloor> + 1" by (simp add: ceiling_altdef)
  have "\<lfloor>r + 1 / 2\<rfloor> = \<lfloor>r\<rfloor> + 1"
    using False by (simp add: floor_add)
  with False up show ?thesis by (simp add: round_def)
qed

subsection \<open>The mouse position\<close>

text \<open>
  At the fractional geometry the element offset \<open>0.4 + 0.1\<close> is the Number \<open>0.5\<close>, and the
  pointer at page position \<open>1\<close> is mapped to \<open>Math.round(0.5)\<close>, which is \<open>1\<close>.
\<close>

lemma getMousePosition_fractional:
  "element w = 1 \<Longrightarrow>
   getMousePosition fractional_layout w (click 1 0 keys) = \<lparr>posX = Integer 1, posY = Integer 0\<rparr>"
  by (simp add: getMousePosition_def getElementOffset_def fractional_layout_def click_def
        js_sub_def fl_eval Math_round_eq_round round_def del: Math_round.simps)

text \<open>
  C6. For every pointer event and every geometry, \<open>getMousePosition\<close> returns the
  point whose coordinates are \<open>Math.round(pageX - offsetLeft)\<close> and
  \<open>Math.round(pageY - offsetTop)\<close>, where \<open>offsetLeft\<close> is the left edge of the bounding
  rectangle plus the horizontal scroll offset minus \<open>clientLeft\<close> of the root element,
  and \<open>offsetTop\<close> likewise, all in the arithmetic of Numbers; and \<open>Math.round\<close> of a
  finite Number is the integer nearest to it (a half rounds up), which is within a
  half of it.
\<close>

theorem getMousePosition_rounds_offset_difference:
  "getMousePosition lay w ev =
     \<lparr>posX = Math_round (js_sub (pageX ev)
               (js_sub (js_add (rectLeft lay (element w)) (pageXOffset lay)) (clientLeft lay))),
      posY = Math_round (js_sub (pageY ev)
               (js_sub (js_add (rectTop lay (element w)) (pageYOffset lay)) (clientTop lay)))\<rparr> \<and>
   Math_round (Finite r) = Integer (round r) \<and>
   \<bar>real_of_int (round r) - r\<bar> \<le> 1 / 2"
proof -
  have "getMousePosition lay w ev =
     \<lparr>posX = Math_round (js_sub (pageX ev)
               (js_sub (js_add (rectLeft lay (element w)) (pageXOffset lay)) (clientLeft lay))),
      posY = Math_round (js_sub (pageY ev)
               (js_sub (js_add (rectTop lay (element w)) (pageYOffset lay)) (clientTop lay)))\<rparr>"
    by (simp add: getMousePosition_def getElementOffset_def)
  moreover have "Math_round (Finite r) = Integer (round r)"
    by (rule Math_round_eq_round)
  moreover have "\<bar>real_of_int (round r) - r\<bar> \<le> 1 / 2"
    by (rule of_int_round_abs_le)
  ultimately show ?thesis by simp
qed

text \<open>
  C7, as the specification states it, fails at the fractional geometry: the page
  position \<open>1\<close> is mapped to \<open>1\<close>, and after the page has scrolled by \<open>(1, 0)\<close>, where the
  rectangle is reported at \<open>-0.6\<close> and the scroll offset as \<open>1.1\<close>, the same page position
  is mapped to \<open>0\<close>, because \<open>-0.6 + 1.1\<close> is not \<open>0.5\<close> in Numbers.
\<close>

theorem scroll_invariance_counterexample:
  "rectLeft (scrolled (Finite 1) (Finite 0) fractional_layout) 1 = fl (- 6 / 10) \<and>
   pageXOffset (scrolled (Finite 1) (Finite 0) fractional_layout) = fl (11 / 10) \<and>
   getMousePosition fractional_layout example_widget (click 1 0 []) =
     \<lparr>posX = Integer 1, posY = Integer 0\<rparr> \<and>
   getMousePosition (scrolled (Finite 1) (Finite 0) fractional_layout) example_widget (click 1 0 []) =
     \<lparr>posX = Integer 0, posY = Integer 0\<rparr>"
  by (simp add: getMousePosition_def getElementOffset_def fractional_layout_def click_def
        scrolled_def example_widget_def js_sub_def fl_eval Math_round_eq_round round_def
      del: Math_round.simps)

text \<open>
  C7, amended. The mouse position does not change when the page scrolls, provided the
  scrolled geometry is exact: for every pointer page position and every scroll delta
  \<open>(dx, dy)\<close> for which the shifted edges of the bounding rectangle and the shifted
  scroll offsets are Numbers (as they are for integer pixel positions), the position
  computed in the scrolled geometry is the position computed before.
\<close>

theorem getMousePosition_scroll_invariant_when_exact:
  assumes "rectLeft lay (element w) = Finite l" "rectTop lay (element w) = Finite t"
    and "pageXOffset lay = Finite sx" "pageYOffset lay = Finite sy"
    and "fl (l - dx) = Finite (l - dx)" "fl (t - dy) = Finite (t - dy)"
    and "fl (sx + dx) = Finite (sx + dx)" "fl (sy + dy) = Finite (sy + dy)"
  shows "getMousePosition (scrolled (Finite dx) (Finite dy) lay) w ev = getMousePosition lay w ev"
proof -
  have "(l - dx) + (sx + dx) = l + sx" "(t - dy) + (sy + dy) = t + sy"
    by simp_all
  then show ?thesis
    using assms
    by (simp add: getMousePosition_def getElementOffset_def scrolled_def js_sub_def)
qed

theorem getMousePosition_scroll_invariant_when_exact_witness:
  "rectLeft (scrolled (Finite 3) (Finite 4) example_layout) 1 = Finite 7 \<and>
   rectTop (scrolled (Finite 3) (Finite 4) example_layout) 1 = Finite 6 \<and>
   pageXOffset (scrolled (Finite 3) (Finite 4) example_layout) = Finite 3 \<and>
   pageYOffset (scrolled (Finite 3) (Finite 4) example_layout) = Finite 4 \<and>
   getMousePosition (scrolled (Finite 3) (Finite 4) example_layout) example_widget (click 110 60 []) =
     getMousePosition example_layout example_widget (click 110 60 [])"
proof -
  have g: "rectLeft example_layout (element example_widget) = Finite 10"
    "rectTop example_layout (element example_widget) = Finite 10"
    "pageXOffset example_layout = Finite 0" "pageYOffset example_layout = Finite 0"
    by (simp_all add: example_layout_def example_widget_def)
  have "getMousePosition (scrolled (Finite 3) (Finite 4) example_layout) example_widget (click 110 60 []) =
     getMousePosition example_layout example_widget (click 110 60 [])"
    by (rule getMousePosition_scroll_invariant_when_exact[OF g])
       (simp_all add: fl_small_integers)
  then show ?thesis
    by (simp add: scrolled_def example_layout_def js_sub_def fl_small_integers)
qed

subsection \<open>The session: \<open>coords\<close> and \<open>isDrawing\<close>\<close>

text \<open>
  C2. From every widget state, \<open>closeMap\<close> and \<open>resetMaps\<close> leave an empty \<open>coords\<close>
  and \<open>isDrawing\<close> false.
\<close>

theorem closeMap_resetMaps_empty_session:
  "coords (closeMap w) = [] \<and> \<not> isDrawing (closeMap w) \<and>
   coords (fst (resetMaps (w, d))) = [] \<and> \<not> isDrawing (fst (resetMaps (w, d)))"
  by (simp add: closeMap_def resetMaps_def)

text \<open>
  C4. \<open>regretPoint\<close> on an empty \<open>coords\<close> changes nothing and raises nothing; in
  every state it keeps \<open>isDrawing\<close> and every other field, and its only effect is to
  drop the last pair of \<open>coords\<close> when there is one.
\<close>

theorem regretPoint_empty_noop_keeps_isDrawing:
  "regretPoint (w\<lparr>coords := []\<rparr>) = w\<lparr>coords := []\<rparr> \<and>
   isDrawing (regretPoint w) = isDrawing w \<and>
   regretPoint w = w\<lparr>coords := butlast (coords w)\<rparr>"
  by (simp add: regretPoint_def)

subsection \<open>What a click does\<close>

lemma injectPolygon_keeps:
  "options (fst (injectPolygon (w, d))) = options w"
  "coords (fst (injectPolygon (w, d))) = coords w"
  "isDrawing (fst (injectPolygon (w, d))) = isDrawing w"
  "element (fst (injectPolygon (w, d))) = element w"
  by (simp_all add: injectPolygon_def Let_def split: prod.splits)

lemma ensurePolygon_keeps:
  "options (fst (ensurePolygon s)) = options (fst s)"
  "coords (fst (ensurePolygon s)) = coords (fst s)"
  "isDrawing (fst (ensurePolygon s)) = isDrawing (fst s)"
  "element (fst (ensurePolygon s)) = element (fst s)"
  by (cases s; simp add: ensurePolygon_def injectPolygon_keeps)+

lemma onClick_ensure:
  "onClick lay ev (w, d) =
     (let (w1, d1) = ensurePolygon (w, d)
      in if held w ev ''regretKey'' then (regretPoint w1, d1)
         else if held w ev ''closeKey'' then (closeMap w1, d1)
         else if held w ev ''resetKey'' then resetMaps (w1, d1)
         else (w1\<lparr>coords := coords w1 @
                      [(posX (getMousePosition lay w ev), posY (getMousePosition lay w ev))],
                  isDrawing := True\<rparr>, d1))"
  by (cases "polygon w")
     (simp_all add: onClick_def ensurePolygon_def held_def Let_def injectPolygon_def
        createElement_def getMousePosition_def split: prod.splits)

lemma onClick_keeps:
  "options (fst (onClick lay ev s)) = options (fst s)"
  "element (fst (onClick lay ev s)) = element (fst s)"
proof -
  obtain w d where s: "s = (w, d)" by (cases s)
  obtain w1 d1 where e: "ensurePolygon (w, d) = (w1, d1)"
    by (cases "ensurePolygon (w, d)")
  have c: "options w1 = options w" "element w1 = element w"
    using ensurePolygon_keeps(1,4)[of "(w, d)"] e by simp_all
  show "options (fst (onClick lay ev s)) = options (fst s)"
    using s e c by (simp add: onClick_ensure regretPoint_def closeMap_def resetMaps_def)
  show "element (fst (onClick lay ev s)) = element (fst s)"
    using s e c by (simp add: onClick_ensure regretPoint_def closeMap_def resetMaps_def)
qed

lemma onClick_undo_coords:
  "held (fst s) ev ''regretKey'' \<Longrightarrow> coords (fst (onClick lay ev s)) = butlast (coords (fst s))"
  using ensurePolygon_keeps(2)[of s]
  by (cases s) (auto simp add: onClick_ensure regretPoint_def split: prod.splits)

lemma onClick_plain_coords:
  "\<not> held (fst s) ev ''regretKey'' \<Longrightarrow> \<not> held (fst s) ev ''closeKey'' \<Longrightarrow>
   \<not> held (fst s) ev ''resetKey'' \<Longrightarrow>
   coords (fst (onClick lay ev s)) =
     coords (fst s) @
       [(posX (getMousePosition lay (fst s) ev), posY (getMousePosition lay (fst s) ev))]"
  using ensurePolygon_keeps(2)[of s]
  by (cases s) (auto simp add: onClick_ensure split: prod.splits)

subsection \<open>The concrete page\<close>

lemma extend_defaults_undefined: "extend Map.empty [defaults, JUndefined] = Inr merged_defaults"
  by (simp add: defaults_def merged_defaults_def extend_from_def assign_def)

lemma opt_merged_defaults:
  "opt merged_defaults ''wrapImages'' = JBool True"
  "opt merged_defaults ''regretKey'' = JStr ''metaKey''"
  "opt merged_defaults ''closeKey'' = JStr ''shiftKey''"
  "opt merged_defaults ''resetKey'' = JStr ''altKey''"
  by (simp_all add: opt_def merged_defaults_def)

text \<open>The example widget and document are what the constructor builds on the example page.\<close>

lemma drawMaps_example_page:
  "drawMaps example_layout 1 JUndefined example_page = Inr (example_widget, example_document)"
  apply (simp only: drawMaps_def extend_defaults_undefined sum.case)
  apply (simp add: initialize_def opt_merged_defaults
      injectWrapper_def injectSvg_def createElement_def setStyle_def setAttribute_def
      insertBefore_def appendChild_def removeChild_def addEventListener_def
      example_page_def example_layout_def example_widget_def example_document_def Let_def
      num_str_def decimal.simps)
  apply (auto simp add: fun_eq_iff)
  done

lemma held_click:
  "options w = merged_defaults \<Longrightarrow> held w (click px py keys) ''regretKey'' = (''metaKey'' \<in> set keys)"
  "options w = merged_defaults \<Longrightarrow> held w (click px py keys) ''closeKey'' = (''shiftKey'' \<in> set keys)"
  "options w = merged_defaults \<Longrightarrow> held w (click px py keys) ''resetKey'' = (''altKey'' \<in> set keys)"
  by (simp_all add: held_def click_def opt_merged_defaults)

lemma example_position:
  "element w = 1 \<Longrightarrow>
   getMousePosition example_layout w (click 110 60 keys) = \<lparr>posX = Integer 100, posY = Integer 50\<rparr>"
  "element w = 1 \<Longrightarrow>
   getMousePosition example_layout w (click 130 80 keys) = \<lparr>posX = Integer 120, posY = Integer 70\<rparr>"
  by (simp_all add: getMousePosition_def getElementOffset_def example_layout_def click_def
        js_sub_def fl_small_integers Let_def)

lemma scenario1_widget:
  "fst scenario1 = example_widget\<lparr>polygon := Some 4, coords := [(Integer 100, Integer 50)], isDrawing := True\<rparr>"
  by (simp add: scenario1_def onClick_ensure held_click example_position ensurePolygon_def
        injectPolygon_def createElement_def example_widget_def example_document_def Let_def)

lemma scenario1_polygon_attached: "parentNode (snd scenario1) 4 = Some 3"
  by (simp add: scenario1_def onClick_ensure held_click example_position ensurePolygon_def
        injectPolygon_def createElement_def setStyle_def appendChild_def
        example_widget_def example_document_def Let_def)

lemma scenario1_ensured: "ensurePolygon scenario1 = scenario1"
proof -
  have "polygon (fst scenario1) = Some 4"
    by (simp add: scenario1_widget)
  then show ?thesis
    by (simp add: ensurePolygon_def split_def)
qed

lemma scenario1_options: "options (fst scenario1) = merged_defaults" "element (fst scenario1) = 1"
  by (simp_all add: scenario1_widget example_widget_def)

lemma scenario_coords:
  "coords (fst scenario1) = [(Integer 100, Integer 50)]"
  "coords (fst scenario2) = []"
  "coords (fst scenario3) = [(Integer 120, Integer 70)]"
proof -
  show c1: "coords (fst scenario1) = [(Integer 100, Integer 50)]"
    by (simp add: scenario1_widget)
  have k2: "options (fst scenario2) = merged_defaults" "element (fst scenario2) = 1"
    by (simp_all add: scenario2_def onClick_keeps scenario1_options)
  show c2: "coords (fst scenario2) = []"
    by (simp add: scenario2_def onClick_undo_coords held_click scenario1_options c1)
  show "coords (fst scenario3) = [(Integer 120, Integer 70)]"
    by (simp add: scenario3_def onClick_plain_coords held_click k2 c2 example_position)
qed

subsection \<open>Claims about clicks and moves\<close>

text \<open>
  C1. Every click performs exactly one action, chosen by a fixed priority over the
  modifier conditions, after a polygon element has been ensured: when the condition of
  \<open>regretKey\<close> holds the click is \<open>regretPoint\<close> and nothing else; otherwise, when that
  of \<open>closeKey\<close> holds, it is \<open>closeMap\<close> and nothing else; otherwise, when that of
  \<open>resetKey\<close> holds, it is \<open>resetMaps\<close> and nothing else; otherwise the mouse position
  is appended to \<open>coords\<close> and \<open>isDrawing\<close> is set. Whatever else is held, a click
  with a modifier condition appends no vertex.
\<close>

theorem onClick_one_action_by_priority:
  "(held w ev ''regretKey'' \<longrightarrow>
      onClick lay ev (w, d) =
        (regretPoint (fst (ensurePolygon (w, d))), snd (ensurePolygon (w, d)))) \<and>
   (\<not> held w ev ''regretKey'' \<and> held w ev ''closeKey'' \<longrightarrow>
      onClick lay ev (w, d) =
        (closeMap (fst (ensurePolygon (w, d))), snd (ensurePolygon (w, d)))) \<and>
   (\<not> held w ev ''regretKey'' \<and> \<not> held w ev ''closeKey'' \<and> held w ev ''resetKey'' \<longrightarrow>
      onClick lay ev (w, d) = resetMaps (ensurePolygon (w, d))) \<and>
   (\<not> held w ev ''regretKey'' \<and> \<not> held w ev ''closeKey'' \<and> \<not> held w ev ''resetKey'' \<longrightarrow>
      onClick lay ev (w, d) =
        ((fst (ensurePolygon (w, d)))
           \<lparr>coords := coords w @
              [(posX (getMousePosition lay w ev), posY (getMousePosition lay w ev))],
            isDrawing := True\<rparr>,
         snd (ensurePolygon (w, d)))) \<and>
   (held w ev ''regretKey'' \<or> held w ev ''closeKey'' \<or> held w ev ''resetKey'' \<longrightarrow>
      length (coords (fst (onClick lay ev (w, d)))) \<le> length (coords w))"
proof -
  obtain w1 d1 where e: "ensurePolygon (w, d) = (w1, d1)"
    by (cases "ensurePolygon (w, d)")
  have c: "coords w1 = coords w"
    using ensurePolygon_keeps(2)[of "(w, d)"] e by simp
  show ?thesis
    using e c
    by (simp add: onClick_ensure regretPoint_def closeMap_def resetMaps_def)
qed

text \<open>
  On the example widget after its first vertex, with the default keys: meta, shift and
  alt held together only undo (the vertex is gone, \<open>isDrawing\<close> stays true); shift and
  alt held only close (the polygon element stays in the \<open>svg\<close>); alt alone resets (the
  polygon element is detached); no modifier adds the vertex.
\<close>

theorem onClick_one_action_by_priority_witness:
  "held (fst scenario1) (click 130 80 [''metaKey'', ''shiftKey'', ''altKey'']) ''regretKey'' \<and>
   held (fst scenario1) (click 130 80 [''metaKey'', ''shiftKey'', ''altKey'']) ''closeKey'' \<and>
   held (fst scenario1) (click 130 80 [''metaKey'', ''shiftKey'', ''altKey'']) ''resetKey'' \<and>
   coords (fst (onClick example_layout (click 130 80 [''metaKey'', ''shiftKey'', ''altKey'']) scenario1)) = [] \<and>
   isDrawing (fst (onClick example_layout (click 130 80 [''metaKey'', ''shiftKey'', ''altKey'']) scenario1)) \<and>
   coords (fst (onClick example_layout (click 130 80 [''shiftKey'', ''altKey'']) scenario1)) = [] \<and>
   \<not> isDrawing (fst (onClick example_layout (click 130 80 [''shiftKey'', ''altKey'']) scenario1)) \<and>
   parentNode (snd (onClick example_layout (click 130 80 [''shiftKey'', ''altKey'']) scenario1)) 4 = Some 3 \<and>
   parentNode (snd (onClick example_layout (click 130 80 [''altKey'']) scenario1)) 4 = None \<and>
   coords (fst (onClick example_layout (click 130 80 []) scenario1)) = [(Integer 100, Integer 50), (Integer 120, Integer 70)]"
proof -
  let ?w = "fst scenario1" and ?d = "snd scenario1"
  have h: "held ?w (click 130 80 keys) ''regretKey'' = (''metaKey'' \<in> set keys)"
    "held ?w (click 130 80 keys) ''closeKey'' = (''shiftKey'' \<in> set keys)"
    "held ?w (click 130 80 keys) ''resetKey'' = (''altKey'' \<in> set keys)" for keys
    by (simp_all add: held_click scenario1_options)
  have undo: "onClick example_layout (click 130 80 [''metaKey'', ''shiftKey'', ''altKey'']) scenario1 =
      (regretPoint ?w, ?d)"
    using onClick_one_action_by_priority
      [of ?w "click 130 80 [''metaKey'', ''shiftKey'', ''altKey'']" example_layout ?d]
    by (simp add: h scenario1_ensured)
  have close: "onClick example_layout (click 130 80 [''shiftKey'', ''altKey'']) scenario1 =
      (closeMap ?w, ?d)"
    using onClick_one_action_by_priority
      [of ?w "click 130 80 [''shiftKey'', ''altKey'']" example_layout ?d]
    by (simp add: h scenario1_ensured)
  have reset: "onClick example_layout (click 130 80 [''altKey'']) scenario1 = resetMaps scenario1"
    using onClick_one_action_by_priority
      [of ?w "click 130 80 [''altKey'']" example_layout ?d]
    by (simp add: h scenario1_ensured)
  have add: "onClick example_layout (click 130 80 []) scenario1 =
      (?w\<lparr>coords := coords ?w @ [(Integer 120, Integer 70)], isDrawing := True\<rparr>, ?d)"
    using onClick_one_action_by_priority
      [of ?w "click 130 80 []" example_layout ?d]
    by (simp add: h scenario1_ensured example_position scenario1_options)
  have svg3: "svg ?w = 3" by (simp add: scenario1_widget example_widget_def)
  have detached: "parentNode (snd (resetMaps scenario1)) 4 = None"
    using scenario1_polygon_attached svg3
    by (simp add: resetMaps_def clearInnerHTML_def split_def)
  have all_held:
    "held ?w (click 130 80 [''metaKey'', ''shiftKey'', ''altKey'']) ''regretKey''"
    "held ?w (click 130 80 [''metaKey'', ''shiftKey'', ''altKey'']) ''closeKey''"
    "held ?w (click 130 80 [''metaKey'', ''shiftKey'', ''altKey'']) ''resetKey''"
    by (simp_all add: h)
  show ?thesis
    unfolding undo close reset add
    using detached scenario1_polygon_attached all_held
    by (simp add: regretPoint_def closeMap_def scenario1_widget)
qed

text \<open>
  C3. From every state, a click that appends a vertex (no modifier condition holds)
  followed at once by a click whose \<open>regretKey\<close> condition holds leaves \<open>coords\<close> as it
  was before the two clicks; and \<open>regretPoint\<close> after the appending of any pair \<open>p\<close>
  gives back the \<open>coords\<close> before it.
\<close>

theorem add_then_regret_restores_coords:
  "(\<not> held w ev ''regretKey'' \<and> \<not> held w ev ''closeKey'' \<and> \<not> held w ev ''resetKey'' \<and>
    held w ev' ''regretKey'' \<longrightarrow>
      coords (fst (onClick lay' ev' (onClick lay ev (w, d)))) = coords w) \<and>
   coords (regretPoint (w\<lparr>coords := coords w @ [p], isDrawing := True\<rparr>)) = coords w"
proof -
  have "coords (fst (onClick lay' ev' (onClick lay ev (w, d)))) = coords w"
    if plain: "\<not> held w ev ''regretKey''" "\<not> held w ev ''closeKey''" "\<not> held w ev ''resetKey''"
      and undo: "held w ev' ''regretKey''"
  proof -
    let ?s = "onClick lay ev (w, d)"
    have added: "coords (fst ?s) = coords w @
        [(posX (getMousePosition lay w ev), posY (getMousePosition lay w ev))]"
      using onClick_plain_coords[of "(w, d)" ev lay] plain by simp
    have "options (fst ?s) = options w"
      using onClick_keeps(1)[of lay ev "(w, d)"] by simp
    then have "held (fst ?s) ev' ''regretKey''"
      using undo by (simp add: held_def)
    then have "coords (fst (onClick lay' ev' ?s)) = butlast (coords (fst ?s))"
      by (rule onClick_undo_coords)
    with added show ?thesis by simp
  qed
  then show ?thesis by (simp add: regretPoint_def)
qed

theorem add_then_regret_restores_coords_witness:
  "\<not> held example_widget (click 110 60 []) ''regretKey'' \<and>
   \<not> held example_widget (click 110 60 []) ''closeKey'' \<and>
   \<not> held example_widget (click 110 60 []) ''resetKey'' \<and>
   held example_widget (click 130 80 [''metaKey'']) ''regretKey'' \<and>
   coords (fst (onClick example_layout (click 130 80 [''metaKey''])
             (onClick example_layout (click 110 60 []) (example_widget, example_document)))) =
     coords example_widget"
  using add_then_regret_restores_coords
    [of example_widget "click 110 60 []" "click 130 80 [''metaKey'']" example_layout
        example_layout example_document]
  by (simp add: held_click example_widget_def)

text \<open>
  C5, as the specification states it, fails on the example page (an element at
  \<open>(10, 10)\<close>, no scroll, default keys): the first click stores \<open>(100, 50)\<close>, but the
  click with the meta key held removes that vertex, so \<open>coords\<close> is not \<open>[(Integer 100, Integer 50)]\<close>
  after it and not \<open>[(Integer 100, Integer 50), (Integer 120, Integer 70)]\<close> after the third click.
\<close>

theorem scenario_undo_keeps_vertex_counterexample:
  "drawMaps example_layout 1 JUndefined example_page = Inr (example_widget, example_document) \<and>
   coords (fst scenario1) = [(Integer 100, Integer 50)] \<and>
   coords (fst scenario2) \<noteq> [(Integer 100, Integer 50)] \<and>
   coords (fst scenario3) \<noteq> [(Integer 100, Integer 50), (Integer 120, Integer 70)]"
  using drawMaps_example_page scenario_coords by simp

text \<open>
  C5, amended. With an element whose document offset is \<open>(10, 10)\<close> and no page scroll,
  starting from an empty \<open>coords\<close>: a plain click at page position \<open>(110, 60)\<close> yields
  the single vertex \<open>(100, 50)\<close>; a following click at \<open>(130, 80)\<close> with the undo
  modifier held runs \<open>regretPoint\<close>, which removes that vertex and leaves \<open>coords\<close>
  empty; a following plain click at \<open>(130, 80)\<close> adds \<open>(120, 70)\<close>, giving
  \<open>[(Integer 120, Integer 70)]\<close>.
\<close>

theorem scenario_undo_removes_vertex:
  assumes start: "coords w = []"
    and geometry: "rectLeft lay (element w) = Finite 10" "rectTop lay (element w) = Finite 10"
      "pageXOffset lay = Finite 0" "pageYOffset lay = Finite 0"
      "clientLeft lay = Finite 0" "clientTop lay = Finite 0"
    and first: "pageX e1 = Finite 110" "pageY e1 = Finite 60"
      "\<not> held w e1 ''regretKey''" "\<not> held w e1 ''closeKey''" "\<not> held w e1 ''resetKey''"
    and second: "pageX e2 = Finite 130" "pageY e2 = Finite 80" "held w e2 ''regretKey''"
    and third: "pageX e3 = Finite 130" "pageY e3 = Finite 80"
      "\<not> held w e3 ''regretKey''" "\<not> held w e3 ''closeKey''" "\<not> held w e3 ''resetKey''"
  shows "coords (fst (onClick lay e1 (w, d))) = [(Integer 100, Integer 50)] \<and>
         coords (fst (onClick lay e2 (onClick lay e1 (w, d)))) = [] \<and>
         coords (fst (onClick lay e3 (onClick lay e2 (onClick lay e1 (w, d))))) = [(Integer 120, Integer 70)]"
proof -
  let ?s1 = "onClick lay e1 (w, d)"
  let ?s2 = "onClick lay e2 ?s1"
  let ?s3 = "onClick lay e3 ?s2"
  have p1: "getMousePosition lay w e1 = \<lparr>posX = Integer 100, posY = Integer 50\<rparr>"
    using geometry first
    by (simp add: getMousePosition_def getElementOffset_def js_sub_def fl_small_integers Let_def)
  have c1: "coords (fst ?s1) = [(Integer 100, Integer 50)]"
    using onClick_plain_coords[of "(w, d)" e1 lay] first start p1 by simp
  have k1: "options (fst ?s1) = options w" "element (fst ?s1) = element w"
    using onClick_keeps[of lay e1 "(w, d)"] by simp_all
  have "held (fst ?s1) e2 ''regretKey''"
    using second k1 by (simp add: held_def)
  then have c2: "coords (fst ?s2) = []"
    using onClick_undo_coords[of ?s1 e2 lay] c1 by simp
  have k2: "options (fst ?s2) = options w" "element (fst ?s2) = element w"
    using onClick_keeps[of lay e2 ?s1] k1 by simp_all
  have p3: "getMousePosition lay (fst ?s2) e3 = \<lparr>posX = Integer 120, posY = Integer 70\<rparr>"
    using geometry third k2
    by (simp add: getMousePosition_def getElementOffset_def js_sub_def fl_small_integers Let_def)
  have h3: "\<not> held (fst ?s2) e3 ''regretKey''" "\<not> held (fst ?s2) e3 ''closeKey''"
      "\<not> held (fst ?s2) e3 ''resetKey''"
    using third k2 by (simp_all add: held_def)
  have c3: "coords (fst ?s3) = [(Integer 120, Integer 70)]"
    using onClick_plain_coords[OF h3, of lay] c2 p3 by simp
  from c1 c2 c3 show ?thesis by simp
qed

theorem scenario_undo_removes_vertex_witness:
  "coords example_widget = [] \<and>
   getElementOffset example_layout (element example_widget) =
     \<lparr>offsetTop = Finite 10, offsetLeft = Finite 10\<rparr> \<and>
   held example_widget (click 130 80 [''metaKey'']) ''regretKey'' \<and>
   coords (fst (onClick example_layout (click 110 60 []) (example_widget, example_document))) =
     [(Integer 100, Integer 50)] \<and>
   coords (fst (onClick example_layout (click 130 80 [''metaKey''])
            (onClick example_layout (click 110 60 []) (example_widget, example_document)))) = [] \<and>
   coords (fst (onClick example_layout (click 130 80 [])
            (onClick example_layout (click 130 80 [''metaKey''])
              (onClick example_layout (click 110 60 []) (example_widget, example_document))))) =
     [(Integer 120, Integer 70)]"
proof -
  have w: "coords example_widget = []" "element example_widget = 1"
    "options example_widget = merged_defaults"
    by (simp_all add: example_widget_def)
  have g: "rectLeft example_layout 1 = Finite 10" "rectTop example_layout 1 = Finite 10"
    "pageXOffset example_layout = Finite 0" "pageYOffset example_layout = Finite 0"
    "clientLeft example_layout = Finite 0" "clientTop example_layout = Finite 0"
    by (simp_all add: example_layout_def)
  have e: "pageX (click px py keys) = Finite px" "pageY (click px py keys) = Finite py"
    for px py keys
    by (simp_all add: click_def)
  have "coords (fst (onClick example_layout (click 110 60 []) (example_widget, example_document))) =
     [(Integer 100, Integer 50)] \<and>
   coords (fst (onClick example_layout (click 130 80 [''metaKey''])
            (onClick example_layout (click 110 60 []) (example_widget, example_document)))) = [] \<and>
   coords (fst (onClick example_layout (click 130 80 [])
            (onClick example_layout (click 130 80 [''metaKey''])
              (onClick example_layout (click 110 60 []) (example_widget, example_document))))) =
     [(Integer 120, Integer 70)]"
    by (rule scenario_undo_removes_vertex) (insert w g, simp_all add: e held_click)
  then show ?thesis
    using w g by (simp add: held_click getElementOffset_def js_sub_def fl_small_integers)
qed

lemma join_snoc: "xs \<noteq> [] \<Longrightarrow> join sep (xs @ [s]) = join sep xs @ sep @ s"
  by (induction sep xs rule: join.induct) auto

lemma coords_str_snoc:
  "cs \<noteq> [] \<Longrightarrow>
   coords_str (cs @ [(a, b)]) = join '','' [coords_str cs, rounded_str a, rounded_str b]"
  by (simp add: coords_str_def join_snoc)

text \<open>
  C8. A pointer move never modifies the session: whether \<open>onMove\<close> returns or throws,
  the widget (\<open>coords\<close>, \<open>isDrawing\<close> and every other field) is the one before the
  move. While drawing with at least one vertex and a polygon element, the move only
  writes the \<open>points\<close> attribute of that element: the string of the stored vertices
  followed by the preview point, which is not stored in \<open>coords\<close>.
\<close>

theorem onMove_keeps_session:
  "fst (state_after (onMove lay ev (w, d))) = w \<and>
   onMove lay ev (w\<lparr>isDrawing := True, coords := c # cs, polygon := Some p\<rparr>, d) =
     Inr (w\<lparr>isDrawing := True, coords := c # cs, polygon := Some p\<rparr>,
          setAttribute p ''points''
            (coords_str ((c # cs) @
               [(posX (getMousePosition lay w ev), posY (getMousePosition lay w ev))])) d)"
proof -
  have kept: "fst (state_after (onMove lay ev (w, d))) = w"
    by (simp add: onMove_def renderNewPoint_def state_after_def Let_def split: option.splits)
  have r: "join '','' [coords_str (c # cs), rounded_str a, rounded_str b] =
      coords_str ((c # cs) @ [(a, b)])"
    for a b
    by (rule coords_str_snoc[symmetric]) simp
  have shown: "onMove lay ev (w\<lparr>isDrawing := True, coords := c # cs, polygon := Some p\<rparr>, d) =
     Inr (w\<lparr>isDrawing := True, coords := c # cs, polygon := Some p\<rparr>,
          setAttribute p ''points''
            (coords_str ((c # cs) @
               [(posX (getMousePosition lay w ev), posY (getMousePosition lay w ev))])) d)"
    by (simp add: onMove_def renderNewPoint_def Let_def getMousePosition_def r del: join.simps)
  from kept shown show ?thesis by (rule conjI)
qed

theorem onMove_keeps_session_witness:
  "isDrawing (fst scenario1) \<and> coords (fst scenario1) = [(Integer 100, Integer 50)] \<and>
   fst (state_after (onMove example_layout (click 130 80 []) scenario1)) = fst scenario1 \<and>
   attributes (snd (state_after (onMove example_layout (click 130 80 []) scenario1))) 4 ''points'' =
     Some ''100,50,120,70''"
proof -
  let ?w = "fst scenario1" and ?d = "snd scenario1"
  have same: "?w\<lparr>isDrawing := True, coords := [(Integer 100, Integer 50)], polygon := Some 4\<rparr> = ?w"
    by (simp add: scenario1_widget)
  have pos: "getMousePosition example_layout ?w (click 130 80 []) = \<lparr>posX = Integer 120, posY = Integer 70\<rparr>"
    by (simp add: example_position scenario1_options)
  have str: "coords_str [(Integer 100, Integer 50), (Integer 120, Integer 70)] = ''100,50,120,70''"
    by (simp add: coords_str_def num_str_def decimal.simps)
  from onMove_keeps_session[where lay = example_layout and ev = "click 130 80 []" and w = ?w
      and d = ?d and c = "(Integer 100, Integer 50)" and cs = "[]" and p = 4]
  have both: "fst (state_after (onMove example_layout (click 130 80 []) scenario1)) = ?w \<and>
      onMove example_layout (click 130 80 []) scenario1 =
        Inr (?w, setAttribute 4 ''points'' (coords_str [(Integer 100, Integer 50), (Integer 120, Integer 70)]) ?d)"
    unfolding same pos by (simp add: state_after_def)
  then have moved: "onMove example_layout (click 130 80 []) scenario1 =
      Inr (?w, setAttribute 4 ''points'' ''100,50,120,70'' ?d)"
    by (simp add: str)
  show ?thesis
    unfolding moved
    by (simp add: state_after_def setAttribute_def scenario1_widget)
qed

subsection \<open>The loop of the exported function\<close>

lemma drawMaps_element: "drawMaps lay el opts d = Inr (w, d') \<Longrightarrow> element w = el"
  by (auto simp add: drawMaps_def split: sum.splits prod.splits)



lemma construct_from_elements:
  "i \<le> length xs \<Longrightarrow> construct_from lay opts xs i (ws, d) = Inr (ws', d') \<Longrightarrow>
   map element ws' = map element ws @ rev (take i xs)"
proof (induction i arbitrary: ws d)
  case 0
  then show ?case by simp
next
  case (Suc i)
  from Suc.prems obtain w d1 where
    built: "drawMaps lay (xs ! i) opts d = Inr (w, d1)" and
    rest: "construct_from lay opts xs i (ws @ [w], d1) = Inr (ws', d')"
    by (auto split: sum.splits prod.splits)
  have "map element ws' = map element (ws @ [w]) @ rev (take i xs)"
    using Suc.IH[OF _ rest] Suc.prems(1) by simp
  moreover have "element w = xs ! i"
    using built by (rule drawMaps_element)
  moreover have "take (Suc i) xs = take i xs @ [xs ! i]"
    using Suc.prems(1) by (simp add: take_Suc_conv_app_nth)
  ultimately show ?case by simp
qed

lemma create_elements:
  assumes "create lay xs opts d = Inr (ws, d')"
  shows "map element ws = rev xs"
proof -
  have built: "construct_from lay opts xs (length xs) ([], d) = Inr (ws, d')"
    using assms by (simp add: create_def)
  have "map element ws = map element [] @ rev (take (length xs) xs)"
    using construct_from_elements[of "length xs" xs lay opts "[]" d ws d'] built by simp
  then show ?thesis by simp
qed


subsection \<open>Constructing on an attached element\<close>










subsection \<open>Option merging\<close>










end
